theory Spec2Isabelle
  imports Complex_Main
begin

section \<open>Uniform binding of program.js\<close>

text \<open>
  The embedding follows \<^verbatim>\<open>program.js\<close>: \<^verbatim>\<open>getUniformSetter\<close>, the constructor of
  \<^verbatim>\<open>Program\<close>, \<^verbatim>\<open>setUniform\<close>, \<^verbatim>\<open>setUniforms\<close> and \<^verbatim>\<open>recursiveLoad\<close>.
  The graphics driver \<^verbatim>\<open>gl\<close> is a stub: a record of what its introspection calls answer,
  and a log of the uniform upload calls made on it.
\<close>

subsection \<open>Errors and values\<close>

text \<open>
  \<^verbatim>\<open>new Error(msg)\<close> keeps its message; the errors the JavaScript engine raises itself
  are constructors of their own.
\<close>

datatype error = Error string | TypeError | RangeError | ReferenceError

text \<open>
  The objects \<^verbatim>\<open>uniforms\<close> and \<^verbatim>\<open>duplist\<close> are created as \<^verbatim>\<open>{}\<close>, so besides their own keys
  they answer for the names every object inherits from \<^verbatim>\<open>Object.prototype\<close>: the test
  \<^verbatim>\<open>name in obj\<close> holds for them and \<^verbatim>\<open>obj[name]\<close> is truthy. \<open>objectPrototype name\<close> is
  \<open>None\<close> for a name that is not inherited, and otherwise what the call
  \<^verbatim>\<open>obj[name](value)\<close> does: the inherited functions return, except that
  \<^verbatim>\<open>__defineGetter__\<close> and \<^verbatim>\<open>__defineSetter__\<close> raise a TypeError for the function they are
  not given, that \<^verbatim>\<open>__proto__\<close> is an object, not a function, so calling it is a TypeError,
  and that \<^verbatim>\<open>toLocaleString\<close> calls \<^verbatim>\<open>obj.toString()\<close>, which is an own property of that
  name when the object has one.
\<close>

datatype outcome = Returns | Raises error | CallsToString

definition objectPrototype :: "string \<Rightarrow> outcome option" where
  "objectPrototype name =
     (if name \<in> set [''constructor'', ''hasOwnProperty'', ''isPrototypeOf'',
                      ''propertyIsEnumerable'', ''toString'', ''valueOf'',
                      ''__lookupGetter__'', ''__lookupSetter__'']
      then Some Returns
      else if name \<in> set [''__defineGetter__'', ''__defineSetter__'', ''__proto__'']
      then Some (Raises TypeError)
      else if name = ''toLocaleString'' then Some CallsToString
      else None)"

text \<open>
  JavaScript numbers are modelled by the rationals (every finite double is one; NaN, the
  infinities and the negative zero are outside the model). A value handed to a setter is
  a primitive, here a number, or an object: its array-like contents (the elements of an Array or
  of a typed array; empty for an object with no \<^verbatim>\<open>length\<close>), and, when it exposes the
  method \<^verbatim>\<open>toFloat32Array\<close>, the elements of the Float32Array that the method returns.
\<close>

datatype jsval = JNum rat | JObj "rat list" "rat list option"

text \<open>
  The type tags \<^verbatim>\<open>gl.FLOAT\<close>, ... that the two \<^verbatim>\<open>switch\<close> statements name. They are
  pairwise different constants of the driver; \<open>GL_OTHER n\<close> is a tag equal to none of them.
\<close>

datatype gltype =
    GL_FLOAT | GL_FLOAT_VEC2 | GL_FLOAT_VEC3 | GL_FLOAT_VEC4
  | GL_INT | GL_INT_VEC2 | GL_INT_VEC3 | GL_INT_VEC4
  | GL_BOOL | GL_BOOL_VEC2 | GL_BOOL_VEC3 | GL_BOOL_VEC4
  | GL_FLOAT_MAT2 | GL_FLOAT_MAT3 | GL_FLOAT_MAT4
  | GL_SAMPLER_2D | GL_SAMPLER_CUBE
  | GL_OTHER nat

text \<open>The upload functions of the driver that \<^verbatim>\<open>glFunction\<close> can be bound to.\<close>

datatype glFunction =
    uniform1f | uniform1fv | uniform2fv | uniform3fv | uniform4fv
  | uniform1i | uniform1iv | uniform2iv | uniform3iv | uniform4iv
  | uniformMatrix2fv | uniformMatrix3fv | uniformMatrix4fv

text \<open>The two typed-array constructors the code uses.\<close>

datatype ctor = Float32Array | Uint16Array

text \<open>
  The local variable \<^verbatim>\<open>typedArray\<close>: \<^verbatim>\<open>undefined\<close>, a constructor, or a typed array
  allocated by \<^verbatim>\<open>new Float32Array(n)\<close>, which is an address of the heap below.
\<close>

datatype typedArrayVar = Unset | Ctor ctor | Instance nat

text \<open>What the driver is handed as the data of an upload call.\<close>

datatype payload =
    Raw jsval                          \<comment> \<open>the value itself (primitive setter)\<close>
  | RawUndefined                       \<comment> \<open>\<^verbatim>\<open>undefined\<close>, when the setter was called with no value\<close>
  | Flattened "rat list"               \<comment> \<open>the result of \<^verbatim>\<open>val.toFloat32Array()\<close>\<close>
  | TypedArrayArg nat ctor "rat list"  \<comment> \<open>the typed array at an address, with its contents at the call\<close>

record glcall =
  fn :: glFunction
  location :: nat
  transpose :: "bool option"
  payload :: payload

text \<open>
  The mutable state: the typed arrays allocated so far (an address is an index of the
  list) and the log of upload calls the driver received.
\<close>

record glstate =
  heap :: "(ctor \<times> rat list) list"
  calls :: "glcall list"

text \<open>\<^verbatim>\<open>gl.getActiveUniform(glProgram, i)\<close>: name, type tag and size.\<close>

record info =
  info_name :: string
  info_type :: gltype
  info_size :: nat

text \<open>The four closures \<^verbatim>\<open>getUniformSetter\<close> can return, with the variables they capture.\<close>

datatype setter =
    ArraySetter glFunction nat typedArrayVar   \<comment> \<open>\<^verbatim>\<open>val => glFunction(loc, new typedArray(val))\<close>\<close>
  | MatrixSetter glFunction nat                \<comment> \<open>\<^verbatim>\<open>val => glFunction(loc, false, val.toFloat32Array())\<close>\<close>
  | VectorSetter glFunction nat typedArrayVar  \<comment> \<open>\<^verbatim>\<open>typedArray.set(...); glFunction(loc, typedArray)\<close>\<close>
  | PrimitiveSetter glFunction nat             \<comment> \<open>\<^verbatim>\<open>val => glFunction(loc, val)\<close>\<close>

subsection \<open>The driver stub\<close>

datatype shaderType = VERTEX_SHADER | FRAGMENT_SHADER

record gl =
  createShaderNull :: "shaderType \<Rightarrow> bool"
  compileStatus :: "shaderType \<Rightarrow> string \<Rightarrow> bool"
  shaderInfoLog :: "shaderType \<Rightarrow> string \<Rightarrow> string"
  linkStatus :: "string \<Rightarrow> string \<Rightarrow> bool"
  programInfoLog :: "string \<Rightarrow> string \<Rightarrow> string"
  activeAttribs :: "(string \<times> int) list"
  activeUniforms :: "info list"
  getUniformLocation :: "string \<Rightarrow> nat"
  getExtension :: "string \<Rightarrow> bool"

subsection \<open>Typed arrays\<close>

text \<open>
  Storing a number in a typed array converts it. For a Uint16Array this is ToUint16 of
  ECMAScript: truncate towards zero (ToInteger), then reduce modulo \<open>2 ^ 16\<close>. For a Float32Array it
  is rounding to the nearest float32, which is taken as a parameter \<open>fround\<close>.
\<close>

definition ToInteger :: "rat \<Rightarrow> int" where
  "ToInteger x = (if x < 0 then - \<lfloor>- x\<rfloor> else \<lfloor>x\<rfloor>)"

definition ToUint16 :: "rat \<Rightarrow> rat" where
  "ToUint16 x = of_int (ToInteger x mod 65536)"

definition convert :: "(rat \<Rightarrow> rat) \<Rightarrow> ctor \<Rightarrow> rat \<Rightarrow> rat" where
  "convert fround c x = (case c of Float32Array \<Rightarrow> fround x | Uint16Array \<Rightarrow> ToUint16 x)"

text \<open>\<^verbatim>\<open>new Float32Array(n)\<close>: a fresh array of \<open>n\<close> zeros, at the next address.\<close>

definition alloc :: "ctor \<Rightarrow> rat list \<Rightarrow> glstate \<Rightarrow> nat \<times> glstate" where
  "alloc c xs st = (length (heap st), st\<lparr>heap := heap st @ [(c, xs)]\<rparr>)"

text \<open>
  \<^verbatim>\<open>new typedArray(val)\<close> for a constructor: an object gives its array-like contents,
  converted; a number is a length (ToIndex: truncated, and a RangeError when negative).
\<close>

definition newTypedArray :: "(rat \<Rightarrow> rat) \<Rightarrow> ctor \<Rightarrow> jsval \<Rightarrow> error + rat list" where
  "newTypedArray fround c val =
     (case val of
        JNum r \<Rightarrow> if ToInteger r < 0 then Inl RangeError else Inr (replicate (nat (ToInteger r)) 0)
      | JObj xs m \<Rightarrow> Inr (map (convert fround c) xs))"

text \<open>
  The argument of \<^verbatim>\<open>typedArray.set\<close> in the vector setter:
  \<^verbatim>\<open>val.toFloat32Array ? val.toFloat32Array() : val\<close>, as the sequence \<^verbatim>\<open>set\<close> copies from
  (a primitive number has no \<^verbatim>\<open>length\<close>: nothing is copied).
\<close>

definition setSource :: "jsval \<Rightarrow> rat list" where
  "setSource val =
     (case val of
        JNum r \<Rightarrow> []
      | JObj xs None \<Rightarrow> xs
      | JObj xs (Some ys) \<Rightarrow> ys)"

subsection \<open>getUniformSetter\<close>

record locals =
  matrix :: bool
  vector :: bool
  glFunction :: "glFunction option"
  typedArray :: typedArrayVar

definition locals0 :: locals where
  "locals0 = \<lparr>matrix = False, vector = True, glFunction = None, typedArray = Unset\<rparr>"

text \<open>The first \<^verbatim>\<open>switch\<close>, entered when \<^verbatim>\<open>info.size > 1 && isArray\<close>.\<close>

fun arraySwitch :: "gltype \<Rightarrow> locals \<Rightarrow> error + locals" where
  "arraySwitch GL_FLOAT l =
     Inr (l\<lparr>glFunction := Some uniform1fv, typedArray := Ctor Float32Array, vector := False\<rparr>)"
| "arraySwitch GL_INT l =
     Inr (l\<lparr>glFunction := Some uniform1iv, typedArray := Ctor Uint16Array, vector := False\<rparr>)"
| "arraySwitch GL_BOOL l =
     Inr (l\<lparr>glFunction := Some uniform1iv, typedArray := Ctor Uint16Array, vector := False\<rparr>)"
| "arraySwitch GL_SAMPLER_2D l =
     Inr (l\<lparr>glFunction := Some uniform1iv, typedArray := Ctor Uint16Array, vector := False\<rparr>)"
| "arraySwitch GL_SAMPLER_CUBE l =
     Inr (l\<lparr>glFunction := Some uniform1iv, typedArray := Ctor Uint16Array, vector := False\<rparr>)"
| "arraySwitch _ l = Inl (Error ''Uniform: Unknown GLSL type'')"

text \<open>
  \<^verbatim>\<open>typedArray = isArray ? Float32Array : new Float32Array(n)\<close>: the constructor itself, or
  a typed array of \<open>n\<close> zeros allocated now.
\<close>

definition scratch :: "bool \<Rightarrow> ctor \<Rightarrow> nat \<Rightarrow> glFunction \<Rightarrow> locals \<Rightarrow> glstate \<Rightarrow> locals \<times> glstate" where
  "scratch isArray c n f l st =
     (if isArray then (l\<lparr>glFunction := Some f, typedArray := Ctor c\<rparr>, st)
      else (let (a, st') = alloc c (replicate n 0) st
            in (l\<lparr>glFunction := Some f, typedArray := Instance a\<rparr>, st')))"

text \<open>The second \<^verbatim>\<open>switch\<close>, entered when \<^verbatim>\<open>vector\<close> is still true.\<close>

fun vectorSwitch :: "gltype \<Rightarrow> bool \<Rightarrow> locals \<Rightarrow> glstate \<Rightarrow> locals \<times> glstate" where
  "vectorSwitch GL_FLOAT isArray l st = (l\<lparr>glFunction := Some uniform1f\<rparr>, st)"
| "vectorSwitch GL_FLOAT_VEC2 isArray l st = scratch isArray Float32Array 2 uniform2fv l st"
| "vectorSwitch GL_FLOAT_VEC3 isArray l st = scratch isArray Float32Array 3 uniform3fv l st"
| "vectorSwitch GL_FLOAT_VEC4 isArray l st = scratch isArray Float32Array 4 uniform4fv l st"
| "vectorSwitch GL_INT isArray l st = (l\<lparr>glFunction := Some uniform1i\<rparr>, st)"
| "vectorSwitch GL_BOOL isArray l st = (l\<lparr>glFunction := Some uniform1i\<rparr>, st)"
| "vectorSwitch GL_SAMPLER_2D isArray l st = (l\<lparr>glFunction := Some uniform1i\<rparr>, st)"
| "vectorSwitch GL_SAMPLER_CUBE isArray l st = (l\<lparr>glFunction := Some uniform1i\<rparr>, st)"
| "vectorSwitch GL_INT_VEC2 isArray l st = scratch isArray Uint16Array 2 uniform2iv l st"
| "vectorSwitch GL_BOOL_VEC2 isArray l st = scratch isArray Uint16Array 2 uniform2iv l st"
| "vectorSwitch GL_INT_VEC3 isArray l st = scratch isArray Uint16Array 3 uniform3iv l st"
| "vectorSwitch GL_BOOL_VEC3 isArray l st = scratch isArray Uint16Array 3 uniform3iv l st"
| "vectorSwitch GL_INT_VEC4 isArray l st = scratch isArray Uint16Array 4 uniform4iv l st"
| "vectorSwitch GL_BOOL_VEC4 isArray l st = scratch isArray Uint16Array 4 uniform4iv l st"
| "vectorSwitch GL_FLOAT_MAT2 isArray l st = (l\<lparr>matrix := True, glFunction := Some uniformMatrix2fv\<rparr>, st)"
| "vectorSwitch GL_FLOAT_MAT3 isArray l st = (l\<lparr>matrix := True, glFunction := Some uniformMatrix3fv\<rparr>, st)"
| "vectorSwitch GL_FLOAT_MAT4 isArray l st = (l\<lparr>matrix := True, glFunction := Some uniformMatrix4fv\<rparr>, st)"
| "vectorSwitch (GL_OTHER n) isArray l st = (l, st)"

text \<open>
  \<^verbatim>\<open>glFunction.bind(gl)\<close> on a \<^verbatim>\<open>glFunction\<close> that is still \<^verbatim>\<open>undefined\<close> is a TypeError of
  the engine. The \<^verbatim>\<open>throw\<close> after the last \<^verbatim>\<open>if\<close> chain is unreachable, as its comment says.
\<close>

definition getUniformSetter :: "gl \<Rightarrow> info \<Rightarrow> bool \<Rightarrow> glstate \<Rightarrow> error + (setter \<times> glstate)" where
  "getUniformSetter g i isArray st =
     (let loc = getUniformLocation g (info_name i) in
      case (if info_size i > 1 \<and> isArray then arraySwitch (info_type i) locals0 else Inr locals0) of
        Inl e \<Rightarrow> Inl e
      | Inr l1 \<Rightarrow>
          (let (l2, st') = (if vector l1 then vectorSwitch (info_type i) isArray l1 st else (l1, st)) in
           case glFunction l2 of
             None \<Rightarrow> Inl TypeError
           | Some f \<Rightarrow>
               Inr (if isArray \<and> typedArray l2 \<noteq> Unset then ArraySetter f loc (typedArray l2)
                    else if matrix l2 then MatrixSetter f loc
                    else if typedArray l2 \<noteq> Unset then VectorSetter f loc (typedArray l2)
                    else PrimitiveSetter f loc,
                    st')))"

subsection \<open>Calling a setter\<close>

definition upload :: "glFunction \<Rightarrow> nat \<Rightarrow> bool option \<Rightarrow> payload \<Rightarrow> glstate \<Rightarrow> glstate" where
  "upload f loc t p st =
     st\<lparr>calls := calls st @ [\<lparr>fn = f, location = loc, transpose = t, payload = p\<rparr>]\<rparr>"

text \<open>
  \<^verbatim>\<open>typedArray.set(src)\<close> copies \<open>src\<close> to the front of the array, converting each
  element, keeps the elements behind it, and raises a RangeError when \<open>src\<close> is longer
  than the array. \<^verbatim>\<open>new\<close> on a typed array, and \<^verbatim>\<open>set\<close> on a constructor, are TypeErrors.
  An address always denotes an allocated array; the test on it makes the function total.
\<close>

fun callSetter :: "(rat \<Rightarrow> rat) \<Rightarrow> setter \<Rightarrow> jsval \<Rightarrow> glstate \<Rightarrow> error + glstate" where
  "callSetter fround (ArraySetter f loc (Ctor c)) val st =
     (case newTypedArray fround c val of
        Inl e \<Rightarrow> Inl e
      | Inr xs \<Rightarrow> (let (a, st') = alloc c xs st in Inr (upload f loc None (TypedArrayArg a c xs) st')))"
| "callSetter fround (ArraySetter f loc _) val st = Inl TypeError"
| "callSetter fround (MatrixSetter f loc) val st =
     (case val of
        JObj xs (Some ys) \<Rightarrow> Inr (upload f loc (Some False) (Flattened ys) st)
      | _ \<Rightarrow> Inl TypeError)"
| "callSetter fround (VectorSetter f loc (Instance a)) val st =
     (if a < length (heap st) then
        (let (c, old) = heap st ! a; src = setSource val in
         if length src > length old then Inl RangeError
         else (let new = map (convert fround c) src @ drop (length src) old in
               Inr (upload f loc None (TypedArrayArg a c new) (st\<lparr>heap := (heap st)[a := (c, new)]\<rparr>))))
      else Inl TypeError)"
| "callSetter fround (VectorSetter f loc _) val st = Inl TypeError"
| "callSetter fround (PrimitiveSetter f loc) val st = Inr (upload f loc None (Raw val) st)"

subsection \<open>The class Program\<close>

text \<open>
  \<^verbatim>\<open>createShader\<close> and \<^verbatim>\<open>createProgram\<close>: the stub says whether \<^verbatim>\<open>gl.createShader\<close> answers
  \<^verbatim>\<open>null\<close>, and what the compile and link status are. A shader type is printed in a
  message as the number it is. The handle of a linked program is an object, so the test
  \<^verbatim>\<open>!glProgram\<close> of the constructor never holds and has no branch here.
\<close>

definition shaderTypeText :: "shaderType \<Rightarrow> string" where
  "shaderTypeText t = (case t of VERTEX_SHADER \<Rightarrow> ''35633'' | FRAGMENT_SHADER \<Rightarrow> ''35632'')"

definition createShader :: "gl \<Rightarrow> string \<Rightarrow> shaderType \<Rightarrow> error + unit" where
  "createShader g shaderSource t =
     (if createShaderNull g t then Inl (Error (''Error creating shader with type '' @ shaderTypeText t))
      else if \<not> compileStatus g t shaderSource
        then Inl (Error (''Error while compiling the shader '' @ shaderInfoLog g t shaderSource))
      else Inr ())"

definition createProgram :: "gl \<Rightarrow> string \<Rightarrow> string \<Rightarrow> error + unit" where
  "createProgram g vertexShader fragmentShader =
     (case createShader g vertexShader VERTEX_SHADER of
        Inl e \<Rightarrow> Inl e
      | Inr vs \<Rightarrow>
          (case createShader g fragmentShader FRAGMENT_SHADER of
             Inl e \<Rightarrow> Inl e
           | Inr fs \<Rightarrow>
               if \<not> linkStatus g vertexShader fragmentShader
               then Inl (Error (''Error linking shader '' @ programInfoLog g vertexShader fragmentShader))
               else Inr ()))"

text \<open>
  The object the constructor fills: \<^verbatim>\<open>this.attributes\<close> and \<^verbatim>\<open>this.uniforms\<close>, each by
  its own properties, which are the keys the constructor registered. (No uniform is named
  \<^verbatim>\<open>__proto__\<close>: GLSL reserves the names with two underscores in a row.)
\<close>

record Program =
  attributes :: "string \<rightharpoonup> int"
  uniforms :: "string \<rightharpoonup> setter"

text \<open>\<^verbatim>\<open>s.substr(0, n)\<close>: the first \<open>n\<close> characters, none when \<open>n\<close> is negative.\<close>

definition substr0 :: "string \<Rightarrow> int \<Rightarrow> string" where
  "substr0 s n = take (nat n) s"

text \<open>
  \<^verbatim>\<open>name[name.length - 1] === ']' ? name.substr(0, name.length - 3) : name\<close>; the last
  character of the empty name is \<^verbatim>\<open>undefined\<close>.
\<close>

definition cleanName :: "string \<Rightarrow> string" where
  "cleanName name =
     (if name \<noteq> [] \<and> last name = CHR '']'' then substr0 name (int (length name) - 3)
      else name)"

fun uniformLoop :: "gl \<Rightarrow> info list \<Rightarrow> (string \<rightharpoonup> setter) \<Rightarrow> glstate
    \<Rightarrow> error + ((string \<rightharpoonup> setter) \<times> glstate)" where
  "uniformLoop g [] u st = Inr (u, st)"
| "uniformLoop g (i # rest) u st =
     (let name = cleanName (info_name i) in
      case getUniformSetter g i (info_name i \<noteq> name) st of
        Inl e \<Rightarrow> Inl e
      | Inr (s, st') \<Rightarrow> uniformLoop g rest (u(name \<mapsto> s)) st')"

fun attributeLoop :: "(string \<times> int) list \<Rightarrow> (string \<rightharpoonup> int) \<Rightarrow> (string \<rightharpoonup> int)" where
  "attributeLoop [] m = m"
| "attributeLoop ((name, index) # rest) m = attributeLoop rest (m(name \<mapsto> index))"

definition constructor :: "gl \<Rightarrow> string \<Rightarrow> string \<Rightarrow> glstate \<Rightarrow> error + (Program \<times> glstate)" where
  "constructor g vertexShader fragmentShader st =
     (case createProgram g vertexShader fragmentShader of
        Inl e \<Rightarrow> Inl e
      | Inr glProgram \<Rightarrow>
          (let attrs = attributeLoop (activeAttribs g) Map.empty in
           case uniformLoop g (activeUniforms g) Map.empty st of
             Inl e \<Rightarrow> Inl e
           | Inr (u, st') \<Rightarrow> Inr (\<lparr>attributes = attrs, uniforms = u\<rparr>, st')))"





text \<open>Binding a uniform and calling its setter once, for the statements below.\<close>

definition setOnce :: "(rat \<Rightarrow> rat) \<Rightarrow> gl \<Rightarrow> info \<Rightarrow> bool \<Rightarrow> jsval \<Rightarrow> glstate \<Rightarrow> error + glstate" where
  "setOnce fround g i isArray val st =
     (case getUniformSetter g i isArray st of
        Inl e \<Rightarrow> Inl e
      | Inr (s, st') \<Rightarrow> callSetter fround s val st')"

text \<open>Binding a uniform and calling its setter twice.\<close>

definition setTwice :: "(rat \<Rightarrow> rat) \<Rightarrow> gl \<Rightarrow> info \<Rightarrow> bool \<Rightarrow> jsval \<Rightarrow> jsval \<Rightarrow> glstate
    \<Rightarrow> error + glstate" where
  "setTwice fround g i isArray v1 v2 st =
     (case getUniformSetter g i isArray st of
        Inl e \<Rightarrow> Inl e
      | Inr (s, st0) \<Rightarrow>
          (case callSetter fround s v1 st0 of
             Inl e \<Rightarrow> Inl e
           | Inr st1 \<Rightarrow> callSetter fround s v2 st1))"

subsection \<open>The classification the specification gives\<close>

text \<open>
  The specification's table of uniform kinds, written down independently of the two
  \<^verbatim>\<open>switch\<close> statements: the upload call of a scalar, the staging array, component count
  and upload call of a vector, the upload call of a matrix, and the staging array and
  upload call of an array of scalars.
\<close>

fun specScalarCall :: "gltype \<Rightarrow> glFunction option" where
  "specScalarCall GL_FLOAT = Some uniform1f"
| "specScalarCall GL_INT = Some uniform1i"
| "specScalarCall GL_BOOL = Some uniform1i"
| "specScalarCall GL_SAMPLER_2D = Some uniform1i"
| "specScalarCall GL_SAMPLER_CUBE = Some uniform1i"
| "specScalarCall _ = None"

fun specVectorShape :: "gltype \<Rightarrow> (ctor \<times> nat \<times> glFunction) option" where
  "specVectorShape GL_FLOAT_VEC2 = Some (Float32Array, 2, uniform2fv)"
| "specVectorShape GL_FLOAT_VEC3 = Some (Float32Array, 3, uniform3fv)"
| "specVectorShape GL_FLOAT_VEC4 = Some (Float32Array, 4, uniform4fv)"
| "specVectorShape GL_INT_VEC2 = Some (Uint16Array, 2, uniform2iv)"
| "specVectorShape GL_INT_VEC3 = Some (Uint16Array, 3, uniform3iv)"
| "specVectorShape GL_INT_VEC4 = Some (Uint16Array, 4, uniform4iv)"
| "specVectorShape GL_BOOL_VEC2 = Some (Uint16Array, 2, uniform2iv)"
| "specVectorShape GL_BOOL_VEC3 = Some (Uint16Array, 3, uniform3iv)"
| "specVectorShape GL_BOOL_VEC4 = Some (Uint16Array, 4, uniform4iv)"
| "specVectorShape _ = None"

fun specMatrixCall :: "gltype \<Rightarrow> glFunction option" where
  "specMatrixCall GL_FLOAT_MAT2 = Some uniformMatrix2fv"
| "specMatrixCall GL_FLOAT_MAT3 = Some uniformMatrix3fv"
| "specMatrixCall GL_FLOAT_MAT4 = Some uniformMatrix4fv"
| "specMatrixCall _ = None"

fun specArrayShape :: "gltype \<Rightarrow> (ctor \<times> glFunction) option" where
  "specArrayShape GL_FLOAT = Some (Float32Array, uniform1fv)"
| "specArrayShape GL_INT = Some (Uint16Array, uniform1iv)"
| "specArrayShape GL_BOOL = Some (Uint16Array, uniform1iv)"
| "specArrayShape GL_SAMPLER_2D = Some (Uint16Array, uniform1iv)"
| "specArrayShape GL_SAMPLER_CUBE = Some (Uint16Array, uniform1iv)"
| "specArrayShape _ = None"

section \<open>Shader sources with include directives\<close>

subsection \<open>Strings\<close>

text \<open>
  A string is a list of 8-bit characters; shader sources are ASCII. Of the characters
  the regular expressions treat specially, those beyond U+00FF (the line separators
  U+2028 and U+2029, and the wide spaces of \<^verbatim>\<open>\s\<close>) are outside the model.
\<close>

definition dq :: char where
  "dq = CHR 0x22"

definition lineTerminator :: "char \<Rightarrow> bool" where
  "lineTerminator c = (c = CHR 0x0A \<or> c = CHR 0x0D)"

definition whiteSpace :: "char \<Rightarrow> bool" where
  "whiteSpace c =
     (c = CHR 0x09 \<or> c = CHR 0x0A \<or> c = CHR 0x0B \<or> c = CHR 0x0C \<or> c = CHR 0x0D
      \<or> c = CHR 0x20 \<or> c = CHR 0xA0)"

text \<open>The class \<^verbatim>\<open>[A-Za-z_\-0-9]\<close>.\<close>

definition extChar :: "char \<Rightarrow> bool" where
  "extChar c =
     (let n = (of_char c :: nat) in
      (65 \<le> n \<and> n \<le> 90) \<or> (97 \<le> n \<and> n \<le> 122) \<or> c = CHR ''_'' \<or> c = CHR ''-''
      \<or> (48 \<le> n \<and> n \<le> 57))"

fun stripPrefix :: "string \<Rightarrow> string \<Rightarrow> string option" where
  "stripPrefix [] s = Some s"
| "stripPrefix (p # ps) [] = None"
| "stripPrefix (p # ps) (c # cs) = (if p = c then stripPrefix ps cs else None)"

text \<open>\<^verbatim>\<open>s.lastIndexOf(c)\<close>: the last index of \<open>c\<close>, or \<open>-1\<close>.\<close>

definition lastIndexOf :: "string \<Rightarrow> char \<Rightarrow> int" where
  "lastIndexOf s c = int (length (dropWhile (\<lambda>x. x \<noteq> c) (rev s))) - 1"

text \<open>
  \<^verbatim>\<open>last === '/'\<close> compares the number \<^verbatim>\<open>lastIndexOf\<close> returned with a string: strict
  equality of a number and a string is false, whatever they are.
\<close>

definition numberEqualsString :: "int \<Rightarrow> string \<Rightarrow> bool" where
  "numberEqualsString n s = False"

definition getpath :: "string \<Rightarrow> string" where
  "getpath path =
     (let last = lastIndexOf path CHR ''/'' in
      if numberEqualsString last ''/'' then ''./'' else substr0 path (last + 1))"

subsection \<open>The two regular expressions\<close>

text \<open>
  \<^verbatim>\<open>(.*?)"\<close> behind \<^verbatim>\<open>#include "\<close>: the lazy group takes the characters up to the first
  double quote, and fails at a line terminator, which \<^verbatim>\<open>.\<close> does not match.
\<close>

fun quoted :: "string \<Rightarrow> (string \<times> string) option" where
  "quoted [] = None"
| "quoted (c # cs) =
     (if c = dq then Some ([], cs)
      else if lineTerminator c then None
      else map_option (\<lambda>(p, r). (c # p, r)) (quoted cs))"

text \<open>
  \<^verbatim>\<open>source.match(/#include "(.*?)"/)\<close>: the leftmost match, as the text before it, the
  group \<^verbatim>\<open>match[1]\<close> and the text behind it.
\<close>

fun matchInclude :: "string \<Rightarrow> (string \<times> string \<times> string) option" where
  "matchInclude [] = None"
| "matchInclude (c # cs) =
     (case Option.bind (stripPrefix (''#include '' @ [dq]) (c # cs)) quoted of
        Some (p, r) \<Rightarrow> Some ([], p, r)
      | None \<Rightarrow> map_option (\<lambda>(b, p, a). (c # b, p, a)) (matchInclude cs))"

text \<open>
  \<^verbatim>\<open>/\sHAS_EXTENSION\s*\(\s*([A-Za-z_\-0-9]+)\s*\)/\<close> at the head of a string: the group
  and the text behind the match. Each starred or plussed class is disjoint from what
  follows it, so the greedy match never backtracks.
\<close>

definition matchHasExtension :: "string \<Rightarrow> (string \<times> string) option" where
  "matchHasExtension s =
     (case s of
        [] \<Rightarrow> None
      | w # r \<Rightarrow>
          if \<not> whiteSpace w then None
          else (case stripPrefix ''HAS_EXTENSION'' r of
                  None \<Rightarrow> None
                | Some r1 \<Rightarrow>
                    (case dropWhile whiteSpace r1 of
                       [] \<Rightarrow> None
                     | p # r2 \<Rightarrow>
                         if p \<noteq> CHR ''('' then None
                         else (let r3 = dropWhile whiteSpace r2;
                                   ext = takeWhile extChar r3;
                                   r4 = dropWhile extChar r3 in
                               if ext = [] then None
                               else (case dropWhile whiteSpace r4 of
                                       [] \<Rightarrow> None
                                     | q # r5 \<Rightarrow> if q = CHR '')'' then Some (ext, r5) else None)))))"

lemma stripPrefix_Some: "stripPrefix p s = Some r \<longleftrightarrow> s = p @ r"
  by (induction p s rule: stripPrefix.induct) auto

lemma matchHasExtension_shorter:
  assumes "matchHasExtension s = Some (ext, r)"
  shows "length r < length s"
proof -
  have dw: "length (dropWhile P xs) \<le> length xs" for P and xs :: string
    by (rule length_dropWhile_le)
  from assms obtain w t r1 p r2 q where
    s: "s = w # t" and t: "t = ''HAS_EXTENSION'' @ r1"
    and r2: "dropWhile whiteSpace r1 = p # r2"
    and r: "dropWhile whiteSpace (dropWhile extChar (dropWhile whiteSpace r2)) = q # r"
    by (auto simp: matchHasExtension_def Let_def stripPrefix_Some
        split: list.splits if_splits option.splits)
  have "length r < length (dropWhile extChar (dropWhile whiteSpace r2))"
    using dw [of whiteSpace "dropWhile extChar (dropWhile whiteSpace r2)"] r by simp
  also have "\<dots> \<le> length (dropWhile whiteSpace r2)" by (rule dw)
  also have "\<dots> \<le> length r2" by (rule dw)
  also have "\<dots> < length r1" using dw [of whiteSpace r1] r2 by simp
  also have "\<dots> \<le> length s" using s t by simp
  finally show ?thesis .
qed

text \<open>
  \<^verbatim>\<open>source.replace(/\sHAS_EXTENSION.../g, (all, ext) => gl.getExtension(ext) ? ' 1 ': ' 0 ')\<close>:
  the scan goes on behind each match, and one character further where there is none.
\<close>

function replaceHasExtension :: "gl \<Rightarrow> string \<Rightarrow> string" where
  "replaceHasExtension g [] = []"
| "replaceHasExtension g (c # cs) =
     (case matchHasExtension (c # cs) of
        Some (ext, r) \<Rightarrow> (if getExtension g ext then '' 1 '' else '' 0 '') @ replaceHasExtension g r
      | None \<Rightarrow> c # replaceHasExtension g cs)"
  by pat_completeness auto
termination
  by (relation "measure (\<lambda>(g, s). length s)") (auto dest: matchHasExtension_shorter)

text \<open>
  The replacement text of \<^verbatim>\<open>source.replace(/#include ".*?"/, replacement)\<close>: the patterns
  \<^verbatim>\<open>$$\<close>, \<^verbatim>\<open>$&\<close>, \<^verbatim>\<open>$`\<close> and \<^verbatim>\<open>$'\<close> of a replacement string are expanded; the expression has
  no group, so every other \<^verbatim>\<open>$\<close> stands for itself.
\<close>

fun getSubstitution :: "string \<Rightarrow> string \<Rightarrow> string \<Rightarrow> string \<Rightarrow> string" where
  "getSubstitution matched before after [] = []"
| "getSubstitution matched before after [c] = [c]"
| "getSubstitution matched before after (c # d # r) =
     (if c = CHR ''$'' \<and> d = CHR ''$'' then CHR ''$'' # getSubstitution matched before after r
      else if c = CHR ''$'' \<and> d = CHR ''&'' then matched @ getSubstitution matched before after r
      else if c = CHR ''$'' \<and> d = CHR 0x60 then before @ getSubstitution matched before after r
      else if c = CHR ''$'' \<and> d = CHR 0x27 then after @ getSubstitution matched before after r
      else c # getSubstitution matched before after (d # r))"

text \<open>ToString of what \<^verbatim>\<open>recursiveLoad\<close> resolved to: a string, or \<^verbatim>\<open>undefined\<close>.\<close>

definition toString :: "string option \<Rightarrow> string" where
  "toString v = (case v of None \<Rightarrow> ''undefined'' | Some s \<Rightarrow> s)"

subsection \<open>recursiveLoad\<close>

text \<open>
  What \<^verbatim>\<open>recursiveLoad\<close> is handed as \<^verbatim>\<open>source\<close>: a string, or an object that is not a
  string, as the promise of an asynchronous fetch is.
\<close>

datatype source = Text string | Pending

text \<open>
  The parts of the page that are not in \<^verbatim>\<open>program.js\<close>. \<^verbatim>\<open>sendAsync url\<close> is what
  \<^verbatim>\<open>new XHR({url: url, noCache: true}).sendAsync()\<close> evaluates to (\<open>None\<close>: it throws).
  \<^verbatim>\<open>callbackError\<close> is neither defined nor imported in the file: \<open>callbackError msg\<close> is
  what calling it does (\<open>Some e\<close>: it throws \<open>e\<close>, as a ReferenceError for an unbound
  name; \<open>None\<close>: a global of that name returns).
\<close>

record loader =
  sendAsync :: "string \<Rightarrow> source option"
  callbackError :: "string \<Rightarrow> error option"

text \<open>
  The asynchronous function, with fuel: \<open>None\<close> is a call that has not returned within
  the fuel. Results are \<open>Inl\<close> for a rejection and \<open>Inr\<close> for the value resolved to
  (\<open>None\<close> is \<^verbatim>\<open>undefined\<close>). \<^verbatim>\<open>source.match\<close> on a non-string is a TypeError, outside the
  \<^verbatim>\<open>try\<close>. Everything thrown inside the \<^verbatim>\<open>try\<close>, the rejection of the awaited call
  included, is caught and replaced by the error of the \<^verbatim>\<open>catch\<close>; the call in the
  \<^verbatim>\<open>return\<close> is not awaited, so its outcome is passed on as it is. The awaited call is
  made with three arguments: its \<^verbatim>\<open>duplist\<close> is the default, a new empty object.
  \<open>duplist\<close> is the set of keys set to \<^verbatim>\<open>true\<close>; \<^verbatim>\<open>duplist[url]\<close> is truthy for such a
  key, and for a name the object inherits.
\<close>

fun recursiveLoad :: "nat \<Rightarrow> loader \<Rightarrow> gl \<Rightarrow> string \<Rightarrow> source \<Rightarrow> string set
    \<Rightarrow> (error + string option) option" where
  "recursiveLoad 0 h g base source duplist = None"
| "recursiveLoad (Suc k) h g base source duplist =
     (case source of
        Pending \<Rightarrow> Some (Inl TypeError)
      | Text src \<Rightarrow>
          (case matchInclude src of
             None \<Rightarrow> Some (Inr None)
           | Some (before, path, after) \<Rightarrow>
               (let url = getpath base @ path;
                    failed = Some (Inl (Error (''Load including file '' @ url @ '' failed'')))
                in
                if (url \<in> duplist \<or> objectPrototype url \<noteq> None)
                   \<and> callbackError h ''Recursive include'' \<noteq> None then failed
                else
                  (case sendAsync h url of
                     None \<Rightarrow> failed
                   | Some response \<Rightarrow>
                       (case recursiveLoad k h g url response {} of
                          None \<Rightarrow> None
                        | Some (Inl e) \<Rightarrow> failed
                        | Some (Inr replacement) \<Rightarrow>
                            (let matched = ''#include '' @ [dq] @ path @ [dq];
                                 source1 = before
                                   @ getSubstitution matched before after (toString replacement)
                                   @ after;
                                 source2 = replaceHasExtension g source1
                             in recursiveLoad k h g url (Text source2)
                                  (insert url duplist - {url})))))))"

section \<open>Stubs the examples run on\<close>

definition stubDriver :: "info list \<Rightarrow> gl" where
  "stubDriver us =
     \<lparr>createShaderNull = (\<lambda>t. False), compileStatus = (\<lambda>t s. True), shaderInfoLog = (\<lambda>t s. []),
      linkStatus = (\<lambda>v f. True), programInfoLog = (\<lambda>v f. []), activeAttribs = [],
      activeUniforms = us, getUniformLocation = length, getExtension = (\<lambda>n. n = ''FOO'')\<rparr>"

definition emptyState :: glstate where
  "emptyState = \<lparr>heap = [], calls = []\<rparr>"




text \<open>
  The two files of the cycle: \<^verbatim>\<open>main.glsl\<close> includes \<^verbatim>\<open>a.glsl\<close>, which includes
  \<^verbatim>\<open>main.glsl\<close>. The fetcher hands the text over, or a pending promise.
\<close>

definition includeOf :: "string \<Rightarrow> string" where
  "includeOf path = ''#include '' @ [dq] @ path @ [dq]"

definition cycleFiles :: "string \<Rightarrow> string option" where
  "cycleFiles url =
     (if url = ''a.glsl'' then Some (includeOf ''main.glsl'')
      else if url = ''main.glsl'' then Some (includeOf ''a.glsl'')
      else None)"

definition extFiles :: "string \<Rightarrow> string option" where
  "extFiles url = (if url = ''lib/ext.glsl'' then Some ''// nothing'' else None)"

definition textLoader :: "(string \<Rightarrow> string option) \<Rightarrow> loader" where
  "textLoader files =
     \<lparr>sendAsync = (\<lambda>url. map_option Text (files url)),
      callbackError = (\<lambda>msg. Some ReferenceError)\<rparr>"

definition promiseLoader :: loader where
  "promiseLoader =
     \<lparr>sendAsync = (\<lambda>url. Some Pending), callbackError = (\<lambda>msg. Some ReferenceError)\<rparr>"

section \<open>Properties of the uniform binding\<close>

subsection \<open>What getUniformSetter returns\<close>

lemma getUniformSetter_scalar:
  assumes "specScalarCall (info_type i) = Some f" and "\<not> (info_size i > 1 \<and> isArray)"
  shows "getUniformSetter g i isArray st
         = Inr (PrimitiveSetter f (getUniformLocation g (info_name i)), st)"
  using assms by (cases "info_type i") (auto simp: getUniformSetter_def locals0_def)

lemma getUniformSetter_vector:
  assumes "specVectorShape (info_type i) = Some (c, n, f)"
  shows "getUniformSetter g i False st
         = Inr (VectorSetter f (getUniformLocation g (info_name i)) (Instance (length (heap st))),
                st\<lparr>heap := heap st @ [(c, replicate n 0)]\<rparr>)"
  using assms
  by (cases "info_type i") (auto simp: getUniformSetter_def locals0_def scratch_def alloc_def)

lemma getUniformSetter_matrix:
  assumes "specMatrixCall (info_type i) = Some f" and "\<not> (info_size i > 1 \<and> isArray)"
  shows "getUniformSetter g i isArray st
         = Inr (MatrixSetter f (getUniformLocation g (info_name i)), st)"
  using assms by (cases "info_type i") (auto simp: getUniformSetter_def locals0_def)

lemma getUniformSetter_array:
  assumes "specArrayShape (info_type i) = Some (c, f)" and "info_size i > 1"
  shows "getUniformSetter g i True st
         = Inr (ArraySetter f (getUniformLocation g (info_name i)) (Ctor c), st)"
  using assms by (cases "info_type i") (auto simp: getUniformSetter_def locals0_def)

lemma ToInteger_of_int: "ToInteger (of_int k) = k"
proof -
  have "\<lfloor>- rat_of_int k\<rfloor> = - k"
    using floor_of_int [of "- k", where ?'a = rat] by simp
  then show ?thesis by (simp add: ToInteger_def)
qed

lemma ToUint16_of_int: "ToUint16 (of_int k) = of_int (k mod 65536)"
  by (simp add: ToUint16_def ToInteger_of_int)

lemma calls_upload:
  "calls (upload f loc t p st) = calls st @ [\<lparr>fn = f, location = loc, transpose = t, payload = p\<rparr>]"
  by (simp add: upload_def)

lemma getUniformSetter_vector_single:
  assumes "specVectorShape (info_type i) = Some (c, n, f)" and "\<not> info_size i > 1"
  shows "getUniformSetter g i True st
         = Inr (ArraySetter f (getUniformLocation g (info_name i)) (Ctor c), st)"
  using assms
  by (cases "info_type i") (auto simp: getUniformSetter_def locals0_def scratch_def)

lemma setOnce_vector:
  assumes "specVectorShape (info_type i) = Some (c, n, f)" and "length (setSource val) = n"
  shows "setOnce fr g i False val st
         = Inr (upload f (getUniformLocation g (info_name i)) None
                  (TypedArrayArg (length (heap st)) c (map (convert fr c) (setSource val)))
                  (st\<lparr>heap := heap st @ [(c, map (convert fr c) (setSource val))]\<rparr>))"
  using assms by (simp add: setOnce_def getUniformSetter_vector Let_def)

lemma setOnce_vector_single:
  assumes "specVectorShape (info_type i) = Some (c, n, f)" and "\<not> info_size i > 1"
  shows "setOnce fr g i True (JObj xs m) st
         = Inr (upload f (getUniformLocation g (info_name i)) None
                  (TypedArrayArg (length (heap st)) c (map (convert fr c) xs))
                  (st\<lparr>heap := heap st @ [(c, map (convert fr c) xs)]\<rparr>))"
  using assms by (simp add: setOnce_def getUniformSetter_vector_single newTypedArray_def alloc_def)

lemma setOnce_array:
  assumes "specArrayShape (info_type i) = Some (c, f)" and "info_size i > 1"
  shows "setOnce fr g i True (JObj xs m) st
         = Inr (upload f (getUniformLocation g (info_name i)) None
                  (TypedArrayArg (length (heap st)) c (map (convert fr c) xs))
                  (st\<lparr>heap := heap st @ [(c, map (convert fr c) xs)]\<rparr>))"
  using assms by (simp add: setOnce_def getUniformSetter_array newTypedArray_def alloc_def)

lemma intVector_shape:
  assumes "t \<in> {GL_INT_VEC2, GL_INT_VEC3, GL_INT_VEC4, GL_BOOL_VEC2, GL_BOOL_VEC3, GL_BOOL_VEC4}"
    and "specVectorShape t = Some (c, n, f)"
  shows "c = Uint16Array"
  using assms by auto

lemma intArray_shape:
  assumes "t \<in> {GL_INT, GL_BOOL, GL_SAMPLER_2D, GL_SAMPLER_CUBE}"
    and "specArrayShape t = Some (c, f)"
  shows "c = Uint16Array"
  using assms by auto

lemma convert_Uint16Array: "convert fr Uint16Array = ToUint16"
  by (rule ext) (simp add: convert_def)

lemma stubDriver_simps:
  "getUniformLocation (stubDriver us) = length" "activeUniforms (stubDriver us) = us"
  "getExtension (stubDriver us) n = (n = ''FOO'')"
  by (simp_all add: stubDriver_def)

lemma emptyState_simps: "heap emptyState = []" "calls emptyState = []"
  by (simp_all add: emptyState_def)

subsection \<open>The driver call of each supported type\<close>

text \<open>
  C1, as the code has it. For a uniform of a supported type tag, the setter that
  \<^verbatim>\<open>getUniformSetter\<close> returns makes, on a value of the right shape, exactly one driver
  call: the upload function of the tag, the location \<^verbatim>\<open>getUniformLocation\<close> gave when the
  setter was made, and as data
  \<^item> the value itself for a scalar (not an array of several elements),
  \<^item> the scratch buffer for a vector bound as a non-array, and a new typed array for a
    vector bound as a one-element array, holding the \<open>n\<close> components converted to the
    element type of the buffer (\<open>fround\<close> in a Float32Array, ToUint16 in a Uint16Array),
  \<^item> for a matrix, the transposition flag \<^verbatim>\<open>false\<close> and what the value's
    \<^verbatim>\<open>toFloat32Array()\<close> returns,
  \<^item> for an array of several float, int, bool or sampler elements, a new typed array
    holding the converted elements, with \<^verbatim>\<open>uniform1fv\<close> or \<^verbatim>\<open>uniform1iv\<close>.
  The components are converted, not copied as they are: the claim's "exactly the
  components of the supplied value" fails for an int vector with a negative component.
\<close>

theorem setter_uploads_converted_components:
  "(specScalarCall (info_type i) = Some f \<and> \<not> (info_size i > 1 \<and> isArray) \<longrightarrow>
      (\<exists>st'. setOnce fr g i isArray val st = Inr st' \<and>
         calls st' = calls st @ [\<lparr>fn = f, location = getUniformLocation g (info_name i),
                                  transpose = None, payload = Raw val\<rparr>]))
   \<and> (specVectorShape (info_type i) = Some (c, n, f) \<and> length (setSource val) = n \<longrightarrow>
      (\<exists>st'. setOnce fr g i False val st = Inr st' \<and>
         calls st' = calls st @ [\<lparr>fn = f, location = getUniformLocation g (info_name i),
                                  transpose = None,
                                  payload = TypedArrayArg (length (heap st)) c
                                              (map (convert fr c) (setSource val))\<rparr>]))
   \<and> (specVectorShape (info_type i) = Some (c, n, f) \<and> \<not> info_size i > 1 \<longrightarrow>
      (\<exists>st'. setOnce fr g i True (JObj xs m) st = Inr st' \<and>
         calls st' = calls st @ [\<lparr>fn = f, location = getUniformLocation g (info_name i),
                                  transpose = None,
                                  payload = TypedArrayArg (length (heap st)) c
                                              (map (convert fr c) xs)\<rparr>]))
   \<and> (specMatrixCall (info_type i) = Some f \<and> \<not> (info_size i > 1 \<and> isArray) \<longrightarrow>
      (\<exists>st'. setOnce fr g i isArray (JObj xs (Some ys)) st = Inr st' \<and>
         calls st' = calls st @ [\<lparr>fn = f, location = getUniformLocation g (info_name i),
                                  transpose = Some False, payload = Flattened ys\<rparr>]))
   \<and> (specArrayShape (info_type i) = Some (c, f) \<and> info_size i > 1 \<longrightarrow>
      (\<exists>st'. setOnce fr g i True (JObj xs m) st = Inr st' \<and>
         calls st' = calls st @ [\<lparr>fn = f, location = getUniformLocation g (info_name i),
                                  transpose = None,
                                  payload = TypedArrayArg (length (heap st)) c
                                              (map (convert fr c) xs)\<rparr>]))"
proof (intro conjI impI)
  assume "specScalarCall (info_type i) = Some f \<and> \<not> (info_size i > 1 \<and> isArray)"
  then have "getUniformSetter g i isArray st
      = Inr (PrimitiveSetter f (getUniformLocation g (info_name i)), st)"
    by (simp add: getUniformSetter_scalar)
  then show "\<exists>st'. setOnce fr g i isArray val st = Inr st' \<and>
         calls st' = calls st @ [\<lparr>fn = f, location = getUniformLocation g (info_name i),
                                  transpose = None, payload = Raw val\<rparr>]"
    by (simp add: setOnce_def calls_upload)
next
  assume "specVectorShape (info_type i) = Some (c, n, f) \<and> length (setSource val) = n"
  then show "\<exists>st'. setOnce fr g i False val st = Inr st' \<and>
         calls st' = calls st @ [\<lparr>fn = f, location = getUniformLocation g (info_name i),
                                  transpose = None,
                                  payload = TypedArrayArg (length (heap st)) c
                                              (map (convert fr c) (setSource val))\<rparr>]"
    by (simp add: setOnce_vector calls_upload)
next
  assume "specVectorShape (info_type i) = Some (c, n, f) \<and> \<not> info_size i > 1"
  then show "\<exists>st'. setOnce fr g i True (JObj xs m) st = Inr st' \<and>
         calls st' = calls st @ [\<lparr>fn = f, location = getUniformLocation g (info_name i),
                                  transpose = None,
                                  payload = TypedArrayArg (length (heap st)) c
                                              (map (convert fr c) xs)\<rparr>]"
    by (simp add: setOnce_vector_single calls_upload)
next
  assume "specMatrixCall (info_type i) = Some f \<and> \<not> (info_size i > 1 \<and> isArray)"
  then have "getUniformSetter g i isArray st
      = Inr (MatrixSetter f (getUniformLocation g (info_name i)), st)"
    by (simp add: getUniformSetter_matrix)
  then show "\<exists>st'. setOnce fr g i isArray (JObj xs (Some ys)) st = Inr st' \<and>
         calls st' = calls st @ [\<lparr>fn = f, location = getUniformLocation g (info_name i),
                                  transpose = Some False, payload = Flattened ys\<rparr>]"
    by (simp add: setOnce_def calls_upload)
next
  assume "specArrayShape (info_type i) = Some (c, f) \<and> info_size i > 1"
  then show "\<exists>st'. setOnce fr g i True (JObj xs m) st = Inr st' \<and>
         calls st' = calls st @ [\<lparr>fn = f, location = getUniformLocation g (info_name i),
                                  transpose = None,
                                  payload = TypedArrayArg (length (heap st)) c
                                              (map (convert fr c) xs)\<rparr>]"
    by (simp add: setOnce_array calls_upload)
qed

theorem setter_uploads_converted_components_witness:
  "(\<exists>st'. setOnce (\<lambda>x. x) (stubDriver []) \<lparr>info_name = ''uAlpha'', info_type = GL_FLOAT, info_size = 1\<rparr>
            False (JNum (1 / 2)) emptyState = Inr st'
      \<and> calls st' = [\<lparr>fn = uniform1f, location = length ''uAlpha'', transpose = None,
                       payload = Raw (JNum (1 / 2))\<rparr>])
   \<and> (\<exists>st'. setOnce (\<lambda>x. x) (stubDriver []) \<lparr>info_name = ''uLight'', info_type = GL_FLOAT_VEC3, info_size = 1\<rparr>
            False (JObj [1, 2, 3] None) emptyState = Inr st'
      \<and> calls st' = [\<lparr>fn = uniform3fv, location = length ''uLight'', transpose = None,
                       payload = TypedArrayArg 0 Float32Array [1, 2, 3]\<rparr>])
   \<and> (\<exists>st'. setOnce (\<lambda>x. x) (stubDriver []) \<lparr>info_name = ''uSpot[0]'', info_type = GL_FLOAT_VEC2, info_size = 1\<rparr>
            True (JObj [8, 9] None) emptyState = Inr st'
      \<and> calls st' = [\<lparr>fn = uniform2fv, location = length ''uSpot[0]'', transpose = None,
                       payload = TypedArrayArg 0 Float32Array [8, 9]\<rparr>])
   \<and> (\<exists>st'. setOnce (\<lambda>x. x) (stubDriver []) \<lparr>info_name = ''uMVMatrix'', info_type = GL_FLOAT_MAT2, info_size = 1\<rparr>
            False (JObj [] (Some [1, 0, 0, 1])) emptyState = Inr st'
      \<and> calls st' = [\<lparr>fn = uniformMatrix2fv, location = length ''uMVMatrix'', transpose = Some False,
                       payload = Flattened [1, 0, 0, 1]\<rparr>])
   \<and> (\<exists>st'. setOnce (\<lambda>x. x) (stubDriver []) \<lparr>info_name = ''uWeights[0]'', info_type = GL_FLOAT, info_size = 2\<rparr>
            True (JObj [4, 5] None) emptyState = Inr st'
      \<and> calls st' = [\<lparr>fn = uniform1fv, location = length ''uWeights[0]'', transpose = None,
                       payload = TypedArrayArg 0 Float32Array [4, 5]\<rparr>])"
  using setter_uploads_converted_components [of "\<lparr>info_name = ''uAlpha'', info_type = GL_FLOAT, info_size = 1\<rparr>"
      uniform1f False "\<lambda>x. x" "stubDriver []" "JNum (1 / 2)" emptyState Float32Array 0 "[]" None "[]"]
    setter_uploads_converted_components [of "\<lparr>info_name = ''uLight'', info_type = GL_FLOAT_VEC3, info_size = 1\<rparr>"
      uniform3fv False "\<lambda>x. x" "stubDriver []" "JObj [1, 2, 3] None" emptyState Float32Array 3 "[]" None "[]"]
    setter_uploads_converted_components [of "\<lparr>info_name = ''uSpot[0]'', info_type = GL_FLOAT_VEC2, info_size = 1\<rparr>"
      uniform2fv True "\<lambda>x. x" "stubDriver []" "JNum 0" emptyState Float32Array 2 "[8, 9]" None "[]"]
    setter_uploads_converted_components [of "\<lparr>info_name = ''uMVMatrix'', info_type = GL_FLOAT_MAT2, info_size = 1\<rparr>"
      uniformMatrix2fv False "\<lambda>x. x" "stubDriver []" "JNum 0" emptyState Float32Array 0 "[]" None "[1, 0, 0, 1]"]
    setter_uploads_converted_components [of "\<lparr>info_name = ''uWeights[0]'', info_type = GL_FLOAT, info_size = 2\<rparr>"
      uniform1fv True "\<lambda>x. x" "stubDriver []" "JNum 0" emptyState Float32Array 0 "[4, 5]" None "[]"]
  by (simp add: stubDriver_simps emptyState_simps setSource_def convert_def)

text \<open>
  The counterexample to C1 as stated: the setter of an \<^verbatim>\<open>ivec2\<close> called with \<open>(-1, 2)\<close>
  hands the driver the buffer \<open>(65535, 2)\<close>.
\<close>

theorem int_vector_component_not_uploaded_as_supplied:
  "setOnce (\<lambda>x. x) (stubDriver []) \<lparr>info_name = ''uCell'', info_type = GL_INT_VEC2, info_size = 1\<rparr>
      False (JObj [- 1, 2] None) emptyState
   = Inr \<lparr>heap = [(Uint16Array, [65535, 2])],
          calls = [\<lparr>fn = uniform2iv, location = length ''uCell'', transpose = None,
                    payload = TypedArrayArg 0 Uint16Array [65535, 2]\<rparr>]\<rparr>
   \<and> [65535, 2] \<noteq> [- 1, 2 :: rat]"
  by (simp add: setOnce_def getUniformSetter_def locals0_def scratch_def alloc_def stubDriver_def
      emptyState_def setSource_def convert_def ToUint16_def ToInteger_def upload_def Let_def)

subsection \<open>Type tags the switches do not name\<close>

text \<open>
  C2 at a tag that no case names. For a uniform that is not an array, the second
  \<^verbatim>\<open>switch\<close> leaves \<^verbatim>\<open>glFunction\<close> undefined and \<^verbatim>\<open>glFunction.bind(gl)\<close> raises a
  TypeError; only for an array of several elements does the first \<^verbatim>\<open>switch\<close> throw the
  error \<^verbatim>\<open>Uniform: Unknown GLSL type\<close>. Either way the constructor returns no program.
\<close>

theorem unknown_type_without_array_raises_TypeError:
  "constructor (stubDriver [\<lparr>info_name = ''uStrange'', info_type = GL_OTHER n, info_size = 1\<rparr>])
      vs fs emptyState = Inl TypeError
   \<and> constructor (stubDriver [\<lparr>info_name = ''uStrange[0]'', info_type = GL_OTHER n, info_size = 2\<rparr>])
      vs fs emptyState = Inl (Error ''Uniform: Unknown GLSL type'')"
  by (simp add: constructor_def createProgram_def createShader_def cleanName_def substr0_def
      getUniformSetter_def locals0_def stubDriver_def)

subsection \<open>Array uniforms\<close>

text \<open>
  C3 at an array of vectors. For the uniform \<^verbatim>\<open>colors[0]\<close> of type \<^verbatim>\<open>vec4\<close> and size 2 the
  first \<^verbatim>\<open>switch\<close> throws \<^verbatim>\<open>Uniform: Unknown GLSL type\<close> and the constructor returns no
  program, although the second \<^verbatim>\<open>switch\<close> has the array case of a \<^verbatim>\<open>vec4\<close>: it is reached
  for size 1 only, where the setter is registered under \<^verbatim>\<open>colors\<close> with \<^verbatim>\<open>uniform4fv\<close> on a
  new Float32Array. An array of two floats is registered under its base name with
  \<^verbatim>\<open>uniform1fv\<close>.
\<close>

theorem array_of_vectors_is_rejected:
  "constructor (stubDriver [\<lparr>info_name = ''colors[0]'', info_type = GL_FLOAT_VEC4, info_size = 2\<rparr>])
      vs fs emptyState = Inl (Error ''Uniform: Unknown GLSL type'')
   \<and> constructor (stubDriver [\<lparr>info_name = ''colors[0]'', info_type = GL_FLOAT_VEC4, info_size = 1\<rparr>])
      vs fs emptyState
     = Inr (\<lparr>attributes = Map.empty,
             uniforms = [''colors'' \<mapsto> ArraySetter uniform4fv (length ''colors[0]'') (Ctor Float32Array)]\<rparr>,
            emptyState)
   \<and> constructor (stubDriver [\<lparr>info_name = ''weights[0]'', info_type = GL_FLOAT, info_size = 2\<rparr>])
      vs fs emptyState
     = Inr (\<lparr>attributes = Map.empty,
             uniforms = [''weights'' \<mapsto> ArraySetter uniform1fv (length ''weights[0]'') (Ctor Float32Array)]\<rparr>,
            emptyState)"
  by (simp add: constructor_def createProgram_def createShader_def cleanName_def substr0_def
      getUniformSetter_def locals0_def scratch_def stubDriver_def)

subsection \<open>Scratch buffers\<close>

lemma setTwice_vector:
  assumes "specVectorShape (info_type i) = Some (c, n, f)"
    and "length (setSource v1) = n" and "length (setSource v2) = n"
  shows "setTwice fr g i False v1 v2 st
         = Inr (st\<lparr>heap := heap st @ [(c, map (convert fr c) (setSource v2))],
                   calls := calls st @
                     [\<lparr>fn = f, location = getUniformLocation g (info_name i), transpose = None,
                       payload = TypedArrayArg (length (heap st)) c (map (convert fr c) (setSource v1))\<rparr>,
                      \<lparr>fn = f, location = getUniformLocation g (info_name i), transpose = None,
                       payload = TypedArrayArg (length (heap st)) c (map (convert fr c) (setSource v2))\<rparr>]\<rparr>)"
  using assms by (simp add: setTwice_def getUniformSetter_vector Let_def upload_def)

text \<open>
  C6, as the code has it. Making the setter of a vector uniform bound as a non-array
  allocates one typed array of \<open>n\<close> zeros, \<open>n\<close> the component count of the type, and
  nothing else. Two calls of the setter with values of \<open>n\<close> components each allocate
  nothing more, hand the driver the same typed array (the same address) both times, and
  the second call's data are the converted components of the second value alone. A matrix
  setter has no scratch buffer: neither making it nor calling it allocates. The setter of
  an array of several scalars allocates a new typed array at every call.
\<close>

theorem vector_setter_reuses_one_scratch_buffer:
  "(specVectorShape (info_type i) = Some (c, n, f) \<longrightarrow>
      (\<exists>s. getUniformSetter g i False st = Inr (s, st\<lparr>heap := heap st @ [(c, replicate n 0)]\<rparr>)))
   \<and> (specVectorShape (info_type i) = Some (c, n, f)
        \<and> length (setSource v1) = n \<and> length (setSource v2) = n \<longrightarrow>
      (\<exists>st'. setTwice fr g i False v1 v2 st = Inr st'
         \<and> heap st' = heap st @ [(c, map (convert fr c) (setSource v2))]
         \<and> calls st' = calls st @
             [\<lparr>fn = f, location = getUniformLocation g (info_name i), transpose = None,
               payload = TypedArrayArg (length (heap st)) c (map (convert fr c) (setSource v1))\<rparr>,
              \<lparr>fn = f, location = getUniformLocation g (info_name i), transpose = None,
               payload = TypedArrayArg (length (heap st)) c (map (convert fr c) (setSource v2))\<rparr>]))
   \<and> (specMatrixCall (info_type i) = Some f \<longrightarrow>
      (\<exists>st'. setTwice fr g i False (JObj xs (Some ys)) (JObj xs' (Some ys')) st = Inr st'
         \<and> heap st' = heap st))
   \<and> (specArrayShape (info_type i) = Some (c, f) \<and> info_size i > 1 \<longrightarrow>
      (\<exists>st'. setTwice fr g i True (JObj xs m) (JObj xs' m') st = Inr st'
         \<and> heap st' = heap st @ [(c, map (convert fr c) xs), (c, map (convert fr c) xs')]))"
proof (intro conjI impI)
  assume "specVectorShape (info_type i) = Some (c, n, f)"
  then show "\<exists>s. getUniformSetter g i False st = Inr (s, st\<lparr>heap := heap st @ [(c, replicate n 0)]\<rparr>)"
    by (simp add: getUniformSetter_vector)
next
  assume "specVectorShape (info_type i) = Some (c, n, f)
        \<and> length (setSource v1) = n \<and> length (setSource v2) = n"
  then show "\<exists>st'. setTwice fr g i False v1 v2 st = Inr st'
         \<and> heap st' = heap st @ [(c, map (convert fr c) (setSource v2))]
         \<and> calls st' = calls st @
             [\<lparr>fn = f, location = getUniformLocation g (info_name i), transpose = None,
               payload = TypedArrayArg (length (heap st)) c (map (convert fr c) (setSource v1))\<rparr>,
              \<lparr>fn = f, location = getUniformLocation g (info_name i), transpose = None,
               payload = TypedArrayArg (length (heap st)) c (map (convert fr c) (setSource v2))\<rparr>]"
    by (simp add: setTwice_vector)
next
  assume "specMatrixCall (info_type i) = Some f"
  then have "getUniformSetter g i False st
      = Inr (MatrixSetter f (getUniformLocation g (info_name i)), st)"
    by (simp add: getUniformSetter_matrix)
  then show "\<exists>st'. setTwice fr g i False (JObj xs (Some ys)) (JObj xs' (Some ys')) st = Inr st'
         \<and> heap st' = heap st"
    by (simp add: setTwice_def upload_def)
next
  assume "specArrayShape (info_type i) = Some (c, f) \<and> info_size i > 1"
  then have "getUniformSetter g i True st
      = Inr (ArraySetter f (getUniformLocation g (info_name i)) (Ctor c), st)"
    by (simp add: getUniformSetter_array)
  then show "\<exists>st'. setTwice fr g i True (JObj xs m) (JObj xs' m') st = Inr st'
         \<and> heap st' = heap st @ [(c, map (convert fr c) xs), (c, map (convert fr c) xs')]"
    by (simp add: setTwice_def upload_def newTypedArray_def alloc_def)
qed

theorem vector_setter_reuses_one_scratch_buffer_witness:
  "(\<exists>s. getUniformSetter (stubDriver []) \<lparr>info_name = ''uLight'', info_type = GL_FLOAT_VEC3, info_size = 1\<rparr>
          False emptyState = Inr (s, emptyState\<lparr>heap := [(Float32Array, [0, 0, 0])]\<rparr>))
   \<and> (\<exists>st'. setTwice (\<lambda>x. x) (stubDriver []) \<lparr>info_name = ''uLight'', info_type = GL_FLOAT_VEC3, info_size = 1\<rparr>
          False (JObj [1, 2, 3] None) (JObj [] (Some [7, 8, 9])) emptyState = Inr st'
        \<and> heap st' = [(Float32Array, [7, 8, 9])]
        \<and> calls st' =
             [\<lparr>fn = uniform3fv, location = length ''uLight'', transpose = None,
               payload = TypedArrayArg 0 Float32Array [1, 2, 3]\<rparr>,
              \<lparr>fn = uniform3fv, location = length ''uLight'', transpose = None,
               payload = TypedArrayArg 0 Float32Array [7, 8, 9]\<rparr>])
   \<and> (\<exists>st'. setTwice (\<lambda>x. x) (stubDriver []) \<lparr>info_name = ''uPMatrix'', info_type = GL_FLOAT_MAT2, info_size = 1\<rparr>
          False (JObj [] (Some [1, 0, 0, 1])) (JObj [] (Some [2, 0, 0, 2])) emptyState = Inr st'
        \<and> heap st' = [])
   \<and> (\<exists>st'. setTwice (\<lambda>x. x) (stubDriver []) \<lparr>info_name = ''uWeights[0]'', info_type = GL_FLOAT, info_size = 2\<rparr>
          True (JObj [4, 5] None) (JObj [6, 7] None) emptyState = Inr st'
        \<and> heap st' = [(Float32Array, [4, 5]), (Float32Array, [6, 7])])"
  using vector_setter_reuses_one_scratch_buffer [of "\<lparr>info_name = ''uLight'', info_type = GL_FLOAT_VEC3, info_size = 1\<rparr>"
      Float32Array 3 uniform3fv "stubDriver []" emptyState "JObj [1, 2, 3] None" "JObj [] (Some [7, 8, 9])" "\<lambda>x. x"]
    vector_setter_reuses_one_scratch_buffer [of "\<lparr>info_name = ''uPMatrix'', info_type = GL_FLOAT_MAT2, info_size = 1\<rparr>"
      Float32Array 3 uniformMatrix2fv "stubDriver []" emptyState "JNum 0" "JNum 0" "\<lambda>x. x" "[]" "[1, 0, 0, 1]" "[]" "[2, 0, 0, 2]"]
    vector_setter_reuses_one_scratch_buffer [of "\<lparr>info_name = ''uWeights[0]'', info_type = GL_FLOAT, info_size = 2\<rparr>"
      Float32Array 3 uniform1fv "stubDriver []" emptyState "JNum 0" "JNum 0" "\<lambda>x. x" "[4, 5]" "[]" "[6, 7]" "[]" None None]
  by (simp add: stubDriver_simps emptyState_simps setSource_def convert_def numeral_3_eq_3)

text \<open>
  The counterexample to C6 as stated: the setter of a \<^verbatim>\<open>mat4\<close>, a non-scalar uniform, is made
  without any typed array being allocated; and a \<^verbatim>\<open>vec3\<close> setter called with three
  components and then with two hands the driver \<open>(9, 9, 3)\<close>: the third component is
  left from the first call.
\<close>

theorem matrix_setter_has_no_scratch_buffer_and_short_value_leaks:
  "getUniformSetter (stubDriver []) \<lparr>info_name = ''uPMatrix'', info_type = GL_FLOAT_MAT4, info_size = 1\<rparr>
      False emptyState
   = Inr (MatrixSetter uniformMatrix4fv (length ''uPMatrix''), \<lparr>heap = [], calls = []\<rparr>)
   \<and> map_sum id (\<lambda>st. map payload (calls st))
        (setTwice (\<lambda>x. x) (stubDriver []) \<lparr>info_name = ''uLight'', info_type = GL_FLOAT_VEC3, info_size = 1\<rparr>
           False (JObj [1, 2, 3] None) (JObj [9, 9] None) emptyState)
      = Inr [TypedArrayArg 0 Float32Array [1, 2, 3], TypedArrayArg 0 Float32Array [9, 9, 3]]"
  by (simp add: setTwice_def getUniformSetter_def locals0_def scratch_def alloc_def stubDriver_def
      emptyState_def setSource_def convert_def upload_def Let_def numeral_3_eq_3)

subsection \<open>Matrix values\<close>

text \<open>
  C7 at a flat value. The setter of a \<^verbatim>\<open>mat2\<close> called with a flat array of four numbers
  that has no \<^verbatim>\<open>toFloat32Array\<close> raises a TypeError and makes no driver call; called with
  a value that has the method, it uploads what the method returns with the transposition
  flag \<^verbatim>\<open>false\<close>. The vector setter beside it tests for the method, and takes the flat
  array of a \<^verbatim>\<open>vec4\<close> as it is.
\<close>

theorem matrix_setter_rejects_flat_value:
  "setOnce fr (stubDriver []) \<lparr>info_name = ''uMVMatrix'', info_type = GL_FLOAT_MAT2, info_size = 1\<rparr>
      False (JObj [1, 0, 0, 1] None) emptyState = Inl TypeError
   \<and> setOnce fr (stubDriver []) \<lparr>info_name = ''uMVMatrix'', info_type = GL_FLOAT_MAT2, info_size = 1\<rparr>
      False (JObj [] (Some [1, 0, 0, 1])) emptyState
     = Inr \<lparr>heap = [], calls = [\<lparr>fn = uniformMatrix2fv, location = length ''uMVMatrix'',
                                   transpose = Some False, payload = Flattened [1, 0, 0, 1]\<rparr>]\<rparr>
   \<and> setOnce (\<lambda>x. x) (stubDriver []) \<lparr>info_name = ''uColor'', info_type = GL_FLOAT_VEC4, info_size = 1\<rparr>
      False (JObj [1, 0, 0, 1] None) emptyState
     = Inr \<lparr>heap = [(Float32Array, [1, 0, 0, 1])],
            calls = [\<lparr>fn = uniform4fv, location = length ''uColor'',
                      transpose = None, payload = TypedArrayArg 0 Float32Array [1, 0, 0, 1]\<rparr>]\<rparr>"
  by (simp add: setOnce_def getUniformSetter_def locals0_def scratch_def alloc_def stubDriver_def
      emptyState_def setSource_def convert_def upload_def Let_def)

subsection \<open>setUniform and setUniforms on unknown names\<close>







subsection \<open>Integer uniforms are staged in 16 unsigned bits\<close>

text \<open>
  C10, as the code has it. The setter of an int or bool vector uniform (ivec2/3/4,
  bvec2/3/4), whether it copies into its scratch buffer or, for a one-element array,
  builds a new typed array, and the setter of an array of more than one int, bool or
  sampler, hand the driver a Uint16Array: each component is converted by ToUint16, which
  on an integer \<open>k\<close> is \<open>k mod 2 ^ 16\<close>; so a negative component, and one of 65536 or
  more, reaches the driver as another number. An int, bool or sampler uniform of size 1,
  a one-element array included, gets the scalar setter: the value is handed to
  \<^verbatim>\<open>uniform1i\<close> as it is, with no staging.
\<close>

theorem int_uniforms_staged_in_Uint16Array:
  "(info_type i \<in> {GL_INT_VEC2, GL_INT_VEC3, GL_INT_VEC4, GL_BOOL_VEC2, GL_BOOL_VEC3, GL_BOOL_VEC4}
      \<and> specVectorShape (info_type i) = Some (c, n, f) \<and> length (setSource val) = n \<longrightarrow>
      (\<exists>st'. setOnce fr g i False val st = Inr st' \<and>
         calls st' = calls st @ [\<lparr>fn = f, location = getUniformLocation g (info_name i),
                                  transpose = None,
                                  payload = TypedArrayArg (length (heap st)) Uint16Array
                                              (map ToUint16 (setSource val))\<rparr>]))
   \<and> (info_type i \<in> {GL_INT_VEC2, GL_INT_VEC3, GL_INT_VEC4, GL_BOOL_VEC2, GL_BOOL_VEC3, GL_BOOL_VEC4}
      \<and> specVectorShape (info_type i) = Some (c, n, f) \<and> \<not> info_size i > 1 \<longrightarrow>
      (\<exists>st'. setOnce fr g i True (JObj xs m) st = Inr st' \<and>
         calls st' = calls st @ [\<lparr>fn = f, location = getUniformLocation g (info_name i),
                                  transpose = None,
                                  payload = TypedArrayArg (length (heap st)) Uint16Array
                                              (map ToUint16 xs)\<rparr>]))
   \<and> (info_type i \<in> {GL_INT, GL_BOOL, GL_SAMPLER_2D, GL_SAMPLER_CUBE}
      \<and> specArrayShape (info_type i) = Some (c, f) \<and> info_size i > 1 \<longrightarrow>
      (\<exists>st'. setOnce fr g i True (JObj xs m) st = Inr st' \<and>
         calls st' = calls st @ [\<lparr>fn = f, location = getUniformLocation g (info_name i),
                                  transpose = None,
                                  payload = TypedArrayArg (length (heap st)) Uint16Array
                                              (map ToUint16 xs)\<rparr>]))
   \<and> ToUint16 (of_int k) = of_int (k mod 65536)
   \<and> (k < 0 \<or> 65536 \<le> k \<longrightarrow> ToUint16 (of_int k) \<noteq> of_int k)
   \<and> (info_type i \<in> {GL_INT, GL_BOOL, GL_SAMPLER_2D, GL_SAMPLER_CUBE} \<and> \<not> info_size i > 1 \<longrightarrow>
      (\<exists>st'. setOnce fr g i isArray val st = Inr st' \<and>
         calls st' = calls st @ [\<lparr>fn = uniform1i, location = getUniformLocation g (info_name i),
                                  transpose = None, payload = Raw val\<rparr>]))"
proof (intro conjI impI)
  assume a: "info_type i \<in> {GL_INT_VEC2, GL_INT_VEC3, GL_INT_VEC4, GL_BOOL_VEC2, GL_BOOL_VEC3, GL_BOOL_VEC4}
      \<and> specVectorShape (info_type i) = Some (c, n, f) \<and> length (setSource val) = n"
  then have c: "c = Uint16Array" using intVector_shape by blast
  from a show "\<exists>st'. setOnce fr g i False val st = Inr st' \<and>
         calls st' = calls st @ [\<lparr>fn = f, location = getUniformLocation g (info_name i),
                                  transpose = None,
                                  payload = TypedArrayArg (length (heap st)) Uint16Array
                                              (map ToUint16 (setSource val))\<rparr>]"
    unfolding c by (simp add: setOnce_vector calls_upload convert_Uint16Array)
next
  assume a: "info_type i \<in> {GL_INT_VEC2, GL_INT_VEC3, GL_INT_VEC4, GL_BOOL_VEC2, GL_BOOL_VEC3, GL_BOOL_VEC4}
      \<and> specVectorShape (info_type i) = Some (c, n, f) \<and> \<not> info_size i > 1"
  then have c: "c = Uint16Array" using intVector_shape by blast
  from a show "\<exists>st'. setOnce fr g i True (JObj xs m) st = Inr st' \<and>
         calls st' = calls st @ [\<lparr>fn = f, location = getUniformLocation g (info_name i),
                                  transpose = None,
                                  payload = TypedArrayArg (length (heap st)) Uint16Array
                                              (map ToUint16 xs)\<rparr>]"
    unfolding c by (simp add: setOnce_vector_single calls_upload convert_Uint16Array)
next
  assume a: "info_type i \<in> {GL_INT, GL_BOOL, GL_SAMPLER_2D, GL_SAMPLER_CUBE}
      \<and> specArrayShape (info_type i) = Some (c, f) \<and> info_size i > 1"
  then have c: "c = Uint16Array" using intArray_shape by blast
  from a show "\<exists>st'. setOnce fr g i True (JObj xs m) st = Inr st' \<and>
         calls st' = calls st @ [\<lparr>fn = f, location = getUniformLocation g (info_name i),
                                  transpose = None,
                                  payload = TypedArrayArg (length (heap st)) Uint16Array
                                              (map ToUint16 xs)\<rparr>]"
    unfolding c by (simp add: setOnce_array calls_upload convert_Uint16Array)
next
  show "ToUint16 (of_int k) = of_int (k mod 65536)" by (rule ToUint16_of_int)
next
  assume a: "k < 0 \<or> 65536 \<le> k"
  have "0 \<le> k mod 65536" "k mod 65536 < 65536" by simp_all
  with a have "k mod 65536 \<noteq> k" by linarith
  then show "ToUint16 (of_int k) \<noteq> of_int k" by (simp add: ToUint16_of_int)
next
  assume a: "info_type i \<in> {GL_INT, GL_BOOL, GL_SAMPLER_2D, GL_SAMPLER_CUBE} \<and> \<not> info_size i > 1"
  then have "specScalarCall (info_type i) = Some uniform1i" by auto
  with a have "getUniformSetter g i isArray st
      = Inr (PrimitiveSetter uniform1i (getUniformLocation g (info_name i)), st)"
    by (simp add: getUniformSetter_scalar)
  then show "\<exists>st'. setOnce fr g i isArray val st = Inr st' \<and>
         calls st' = calls st @ [\<lparr>fn = uniform1i, location = getUniformLocation g (info_name i),
                                  transpose = None, payload = Raw val\<rparr>]"
    by (simp add: setOnce_def calls_upload)
qed

theorem int_uniforms_staged_in_Uint16Array_witness:
  "(\<exists>st'. setOnce (\<lambda>x. x) (stubDriver []) \<lparr>info_name = ''uCell'', info_type = GL_INT_VEC2, info_size = 1\<rparr>
            False (JObj [- 1, 65536] None) emptyState = Inr st'
      \<and> calls st' = [\<lparr>fn = uniform2iv, location = length ''uCell'', transpose = None,
                       payload = TypedArrayArg 0 Uint16Array [65535, 0]\<rparr>])
   \<and> (\<exists>st'. setOnce (\<lambda>x. x) (stubDriver []) \<lparr>info_name = ''uFlag[0]'', info_type = GL_BOOL_VEC2, info_size = 1\<rparr>
            True (JObj [1, 70000] None) emptyState = Inr st'
      \<and> calls st' = [\<lparr>fn = uniform2iv, location = length ''uFlag[0]'', transpose = None,
                       payload = TypedArrayArg 0 Uint16Array [1, 4464]\<rparr>])
   \<and> (\<exists>st'. setOnce (\<lambda>x. x) (stubDriver []) \<lparr>info_name = ''uIds[0]'', info_type = GL_INT, info_size = 3\<rparr>
            True (JObj [3, - 2, 65537] None) emptyState = Inr st'
      \<and> calls st' = [\<lparr>fn = uniform1iv, location = length ''uIds[0]'', transpose = None,
                       payload = TypedArrayArg 0 Uint16Array [3, 65534, 1]\<rparr>])
   \<and> ToUint16 (- 1) = 65535 \<and> ToUint16 (- 1) \<noteq> - 1
   \<and> (\<exists>st'. setOnce (\<lambda>x. x) (stubDriver []) \<lparr>info_name = ''uId[0]'', info_type = GL_INT, info_size = 1\<rparr>
            True (JNum (- 1)) emptyState = Inr st'
      \<and> calls st' = [\<lparr>fn = uniform1i, location = length ''uId[0]'', transpose = None,
                       payload = Raw (JNum (- 1))\<rparr>])"
  using int_uniforms_staged_in_Uint16Array [of "\<lparr>info_name = ''uId[0]'', info_type = GL_INT, info_size = 1\<rparr>"
      Uint16Array 2 uniform1i "JNum (- 1)" "\<lambda>x. x" "stubDriver []" emptyState "[]" None "- 1" True]
    int_uniforms_staged_in_Uint16Array [of "\<lparr>info_name = ''uCell'', info_type = GL_INT_VEC2, info_size = 1\<rparr>"
      Uint16Array 2 uniform2iv "JObj [- 1, 65536] None" "\<lambda>x. x" "stubDriver []" emptyState "[]" None "- 1"]
    int_uniforms_staged_in_Uint16Array [of "\<lparr>info_name = ''uFlag[0]'', info_type = GL_BOOL_VEC2, info_size = 1\<rparr>"
      Uint16Array 2 uniform2iv "JObj [] None" "\<lambda>x. x" "stubDriver []" emptyState "[1, 70000]" None "- 1"]
    int_uniforms_staged_in_Uint16Array [of "\<lparr>info_name = ''uIds[0]'', info_type = GL_INT, info_size = 3\<rparr>"
      Uint16Array 2 uniform1iv "JObj [] None" "\<lambda>x. x" "stubDriver []" emptyState "[3, - 2, 65537]" None "- 1"]
  by (simp add: stubDriver_simps emptyState_simps setSource_def ToUint16_def ToInteger_def)

text \<open>
  The counterexample to C10 as stated: the array \<^verbatim>\<open>uId[0]\<close> of one int gets the scalar
  setter, and the value \<open>-1\<close> reaches \<^verbatim>\<open>uniform1i\<close> as it is; no typed array is made.
\<close>

theorem one_element_int_array_is_not_staged:
  "setOnce (\<lambda>x. x) (stubDriver []) \<lparr>info_name = ''uId[0]'', info_type = GL_INT, info_size = 1\<rparr>
      True (JNum (- 1)) emptyState
   = Inr \<lparr>heap = [],
          calls = [\<lparr>fn = uniform1i, location = length ''uId[0]'', transpose = None,
                    payload = Raw (JNum (- 1))\<rparr>]\<rparr>"
  by (simp add: setOnce_def getUniformSetter_def locals0_def stubDriver_def emptyState_def
      upload_def)

section \<open>Properties of recursiveLoad\<close>

subsection \<open>The include directive\<close>

lemma quoted_Some:
  "quoted s = Some (p, r) \<Longrightarrow> s = p @ dq # r \<and> \<not> (\<exists>c\<in>set p. lineTerminator c) \<and> dq \<notin> set p"
  by (induction s arbitrary: p) (auto split: if_splits)

lemma quoted_complete:
  "\<not> (\<exists>c\<in>set p. lineTerminator c) \<Longrightarrow> quoted (p @ dq # r) \<noteq> None"
  by (induction p) auto

lemma matchInclude_Some:
  "matchInclude s = Some (b, p, a) \<Longrightarrow>
     s = b @ ''#include '' @ [dq] @ p @ [dq] @ a \<and> \<not> (\<exists>c\<in>set p. lineTerminator c)"
proof (induction s arbitrary: b)
  case Nil
  then show ?case by simp
next
  case (Cons c cs)
  show ?case
  proof (cases "Option.bind (stripPrefix (''#include '' @ [dq]) (c # cs)) quoted")
    case None
    with Cons.prems obtain b' where b: "b = c # b'" and m: "matchInclude cs = Some (b', p, a)"
      by auto
    from Cons.IH [OF m] b show ?thesis by simp
  next
    case (Some pr)
    obtain p' r' where pr: "pr = (p', r')" by (cases pr)
    from Some pr obtain t where t: "stripPrefix (''#include '' @ [dq]) (c # cs) = Some t"
      and q: "quoted t = Some (p', r')"
      by (auto simp: bind_eq_Some_conv)
    from Cons.prems Some pr have eq: "b = []" "p' = p" "r' = a" by auto
    from t have "c # cs = (''#include '' @ [dq]) @ t" by (simp only: stripPrefix_Some)
    with quoted_Some [OF q] eq show ?thesis by simp
  qed
qed

lemma matchInclude_complete:
  "\<not> (\<exists>c\<in>set p. lineTerminator c) \<Longrightarrow> matchInclude (b @ ''#include '' @ [dq] @ p @ [dq] @ a) \<noteq> None"
proof (induction b)
  case Nil
  have "stripPrefix (''#include '' @ [dq]) ((''#include '' @ [dq]) @ (p @ dq # a)) = Some (p @ dq # a)"
    by (simp only: stripPrefix_Some)
  moreover from Nil obtain x where "quoted (p @ dq # a) = Some x"
    using quoted_complete by blast
  ultimately show ?case by (cases x) simp
next
  case (Cons c b)
  then show ?case by (auto split: option.splits)
qed

lemma matchInclude_None_iff:
  "matchInclude s = None \<longleftrightarrow>
     \<not> (\<exists>b p a. s = b @ ''#include '' @ [dq] @ p @ [dq] @ a \<and> \<not> (\<exists>c\<in>set p. lineTerminator c))"
proof
  assume "matchInclude s = None"
  then show "\<not> (\<exists>b p a. s = b @ ''#include '' @ [dq] @ p @ [dq] @ a \<and> \<not> (\<exists>c\<in>set p. lineTerminator c))"
    using matchInclude_complete by blast
next
  assume n: "\<not> (\<exists>b p a. s = b @ ''#include '' @ [dq] @ p @ [dq] @ a \<and> \<not> (\<exists>c\<in>set p. lineTerminator c))"
  show "matchInclude s = None"
  proof (rule ccontr)
    assume "matchInclude s \<noteq> None"
    then obtain b p a where "matchInclude s = Some (b, p, a)" by auto
    from matchInclude_Some [OF this] n show False by blast
  qed
qed

subsection \<open>A cycle of two files\<close>

lemma recursiveLoad_never_recursive_include:
  "recursiveLoad k h g base s d \<noteq> Some (Inl (Error ''Recursive include''))"
proof (induction k arbitrary: base s d)
  case 0
  then show ?case by simp
next
  case (Suc k)
  then show ?case
    by (auto simp: Let_def split: source.splits option.splits sum.splits if_splits)
qed

lemma matchInclude_single: "matchInclude (includeOf ''a.glsl'') = Some ([], ''a.glsl'', [])"
  "matchInclude (includeOf ''main.glsl'') = Some ([], ''main.glsl'', [])"
  by (simp_all add: includeOf_def dq_def lineTerminator_def)

lemma getpath_plain: "getpath ''main.glsl'' = []" "getpath ''a.glsl'' = []"
  by (simp_all add: getpath_def lastIndexOf_def substr0_def numberEqualsString_def)

lemma cycle_never_returns:
  "recursiveLoad k (textLoader cycleFiles) g ''main.glsl'' (Text (includeOf ''a.glsl'')) {} = None
   \<and> recursiveLoad k (textLoader cycleFiles) g ''a.glsl'' (Text (includeOf ''main.glsl'')) {} = None"
proof (induction k)
  case 0
  then show ?case by simp
next
  case (Suc k)
  then show ?case
    by (simp add: matchInclude_single getpath_plain textLoader_def cycleFiles_def
        objectPrototype_def)
qed

text \<open>
  C4 at the cycle of \<^verbatim>\<open>main.glsl\<close> and \<^verbatim>\<open>a.glsl\<close>. With a fetcher that hands the text over,
  \<^verbatim>\<open>recursiveLoad\<close> on \<^verbatim>\<open>main.glsl\<close> does not return, whatever the fuel: the awaited call
  gets a new empty \<^verbatim>\<open>duplist\<close>, so the test \<^verbatim>\<open>duplist[url]\<close> never finds the path that
  is being resolved. With a fetcher that hands over a promise, the awaited call fails on
  \<^verbatim>\<open>source.match\<close> and the outcome is the error of the \<^verbatim>\<open>catch\<close>. In no run at all, of
  any page on any source, is the outcome an error \<^verbatim>\<open>Recursive include\<close>.
\<close>

theorem include_cycle_is_not_detected:
  "(\<forall>k. recursiveLoad k (textLoader cycleFiles) g ''main.glsl'' (Text (includeOf ''a.glsl'')) {} = None)
   \<and> (\<forall>k. recursiveLoad (Suc (Suc k)) promiseLoader g ''main.glsl'' (Text (includeOf ''a.glsl'')) {}
          = Some (Inl (Error ''Load including file a.glsl failed'')))
   \<and> (\<forall>k h base s d. recursiveLoad k h g base s d \<noteq> Some (Inl (Error ''Recursive include'')))"
proof (intro conjI allI)
  fix k
  show "recursiveLoad k (textLoader cycleFiles) g ''main.glsl'' (Text (includeOf ''a.glsl'')) {} = None"
    using cycle_never_returns by blast
next
  fix k
  show "recursiveLoad (Suc (Suc k)) promiseLoader g ''main.glsl'' (Text (includeOf ''a.glsl'')) {}
          = Some (Inl (Error ''Load including file a.glsl failed''))"
    by (simp add: matchInclude_single getpath_plain promiseLoader_def objectPrototype_def)
next
  fix k h base s d
  show "recursiveLoad k h g base s d \<noteq> Some (Inl (Error ''Recursive include''))"
    by (rule recursiveLoad_never_recursive_include)
qed

subsection \<open>The HAS_EXTENSION rewriting\<close>

lemma stripPrefix_append: "stripPrefix p (p @ r) = Some r"
  by (simp add: stripPrefix_Some)

lemma whiteSpace_not_extChar: "whiteSpace c \<Longrightarrow> \<not> extChar c"
  by (auto simp: whiteSpace_def extChar_def)

lemma paren_not_extChar: "\<not> extChar CHR '')''"
  by (simp add: extChar_def)

lemma dropWhile_whiteSpace:
  "list_all whiteSpace sp \<Longrightarrow> \<not> whiteSpace c \<Longrightarrow> dropWhile whiteSpace (sp @ c # r) = c # r"
  by (induction sp) auto

lemma extChar_run:
  assumes "list_all extChar name" and "list_all whiteSpace sp"
  shows "takeWhile extChar (name @ sp @ CHR '')'' # r) = name"
    and "dropWhile extChar (name @ sp @ CHR '')'' # r) = sp @ CHR '')'' # r"
proof -
  have stop: "takeWhile extChar (sp @ CHR '')'' # r) = []"
    using assms(2) by (cases sp) (auto simp: whiteSpace_not_extChar paren_not_extChar)
  have all: "\<And>x. x \<in> set name \<Longrightarrow> extChar x"
    using assms(1) by (simp add: list_all_iff)
  show "takeWhile extChar (name @ sp @ CHR '')'' # r) = name"
    using all stop by (simp add: takeWhile_append2)
  have "dropWhile extChar (sp @ CHR '')'' # r) = sp @ CHR '')'' # r"
    using assms(2) by (cases sp) (auto simp: whiteSpace_not_extChar paren_not_extChar)
  then show "dropWhile extChar (name @ sp @ CHR '')'' # r) = sp @ CHR '')'' # r"
    using all by (simp add: dropWhile_append2)
qed

lemma matchHasExtension_invocation:
  assumes "whiteSpace w" and "list_all whiteSpace sp1" and "list_all whiteSpace sp2"
    and "list_all whiteSpace sp3" and "name \<noteq> []" and "list_all extChar name"
  shows "matchHasExtension (w # ''HAS_EXTENSION'' @ sp1 @ ''('' @ sp2 @ name @ sp3 @ '')'' @ r)
         = Some (name, r)"
proof -
  have paren: "\<not> whiteSpace CHR ''(''" "\<not> whiteSpace CHR '')''"
    by (simp_all add: whiteSpace_def)
  have first: "\<not> whiteSpace (hd name)"
    using assms(5,6) by (cases name) (auto simp: whiteSpace_not_extChar)
  have s1: "stripPrefix ''HAS_EXTENSION'' (''HAS_EXTENSION'' @ sp1 @ ''('' @ sp2 @ name @ sp3 @ '')'' @ r)
      = Some (sp1 @ CHR ''('' # sp2 @ name @ sp3 @ CHR '')'' # r)"
    using stripPrefix_append [of "''HAS_EXTENSION''" "sp1 @ ''('' @ sp2 @ name @ sp3 @ '')'' @ r"]
    by simp
  have d1: "dropWhile whiteSpace (sp1 @ CHR ''('' # sp2 @ name @ sp3 @ CHR '')'' # r)
      = CHR ''('' # sp2 @ name @ sp3 @ CHR '')'' # r"
    using assms(2) paren(1) by (rule dropWhile_whiteSpace)
  obtain n ns where name: "name = n # ns" using assms(5) by (cases name) auto
  with first have n: "\<not> whiteSpace n" by simp
  have d2: "dropWhile whiteSpace (sp2 @ name @ sp3 @ CHR '')'' # r) = name @ sp3 @ CHR '')'' # r"
    using dropWhile_whiteSpace [OF assms(3) n, of "ns @ sp3 @ CHR '')'' # r"] name by simp
  have d3: "dropWhile whiteSpace (sp3 @ CHR '')'' # r) = CHR '')'' # r"
    using assms(4) paren(2) by (rule dropWhile_whiteSpace)
  show ?thesis
    unfolding matchHasExtension_def
    using assms(1,5) s1 d1 d2 d3 extChar_run [OF assms(6) assms(4), of r]
    by (simp add: Let_def)
qed

lemma replaceHasExtension_no_space:
  "list_all (\<lambda>c. \<not> whiteSpace c) pre \<Longrightarrow>
     replaceHasExtension g (pre @ s) = pre @ replaceHasExtension g s"
  by (induction pre) (auto simp: matchHasExtension_def)

subsection \<open>What recursiveLoad resolves to\<close>

lemma recursiveLoad_resolves_to_undefined:
  "recursiveLoad k h g base s d = Some (Inr v) \<Longrightarrow> v = None"
proof (induction k arbitrary: base s d)
  case 0
  then show ?case by simp
next
  case (Suc k)
  then show ?case
    by (auto simp: Let_def split: source.splits option.splits sum.splits if_splits)
qed

text \<open>
  C5 at a source with an invocation. No run of \<^verbatim>\<open>recursiveLoad\<close>, of any page on any
  source, resolves to a text: the function has no \<^verbatim>\<open>return\<close> for a source without
  \<^verbatim>\<open>#include\<close>, and with one it returns what the call on the rewritten source resolves
  to. So no source is emitted in which an invocation could stand replaced. The source
  \<^verbatim>\<open>#if HAS_EXTENSION(FOO)\<close> resolves to \<^verbatim>\<open>undefined\<close> without being rewritten; behind an
  \<^verbatim>\<open>#include\<close> the invocation is rewritten to \<^verbatim>\<open>1\<close> in the working source (the driver
  reports \<^verbatim>\<open>FOO\<close>), and the run resolves to \<^verbatim>\<open>undefined\<close> all the same.
\<close>

theorem recursiveLoad_emits_no_source:
  "recursiveLoad k h g base s d \<noteq> Some (Inr (Some t))
   \<and> recursiveLoad (Suc 0) (textLoader extFiles) (stubDriver []) ''lib/main.glsl''
        (Text ''#if HAS_EXTENSION(FOO)'') {} = Some (Inr None)
   \<and> replaceHasExtension (stubDriver []) ''undefined HAS_EXTENSION(FOO)'' = ''undefined 1 ''
   \<and> recursiveLoad (Suc (Suc 0)) (textLoader extFiles) (stubDriver []) ''lib/main.glsl''
        (Text (includeOf ''ext.glsl'' @ '' HAS_EXTENSION(FOO)'')) {} = Some (Inr None)"
proof (intro conjI)
  show "recursiveLoad k h g base s d \<noteq> Some (Inr (Some t))"
    using recursiveLoad_resolves_to_undefined [of k h g base s d "Some t"] by auto
next
  show "recursiveLoad (Suc 0) (textLoader extFiles) (stubDriver []) ''lib/main.glsl''
        (Text ''#if HAS_EXTENSION(FOO)'') {} = Some (Inr None)"
    by (simp add: dq_def)
next
  show "replaceHasExtension (stubDriver []) ''undefined HAS_EXTENSION(FOO)'' = ''undefined 1 ''"
    by (simp add: matchHasExtension_def whiteSpace_def extChar_def stubDriver_simps)
next
  have m: "matchInclude (includeOf ''ext.glsl'' @ '' HAS_EXTENSION(FOO)'')
      = Some ([], ''ext.glsl'', '' HAS_EXTENSION(FOO)'')"
    by (simp add: includeOf_def dq_def lineTerminator_def)
  have p: "getpath ''lib/main.glsl'' = ''lib/''"
    by (simp add: getpath_def lastIndexOf_def substr0_def numberEqualsString_def)
  have n: "recursiveLoad (Suc 0) (textLoader extFiles) (stubDriver []) ''lib/ext.glsl''
      (Text ''// nothing'') {} = Some (Inr None)"
    by (simp add: dq_def)
  have e: "replaceHasExtension (stubDriver []) ''undefined HAS_EXTENSION(FOO)'' = ''undefined 1 ''"
    by (simp add: matchHasExtension_def whiteSpace_def extChar_def stubDriver_simps)
  have t: "recursiveLoad (Suc 0) (textLoader extFiles) (stubDriver []) ''lib/ext.glsl''
      (Text ''undefined 1 '') {} = Some (Inr None)"
    by (simp add: dq_def)
  have s: "sendAsync (textLoader extFiles) ''lib/ext.glsl'' = Some (Text ''// nothing'')"
    by (simp add: textLoader_def extFiles_def)
  have o: "objectPrototype ''lib/ext.glsl'' = None"
    by (simp add: objectPrototype_def)
  show "recursiveLoad (Suc (Suc 0)) (textLoader extFiles) (stubDriver []) ''lib/main.glsl''
        (Text (includeOf ''ext.glsl'' @ '' HAS_EXTENSION(FOO)'')) {} = Some (Inr None)"
    apply (subst recursiveLoad.simps(2))
    apply (simp add: m p s o n e t toString_def Let_def
        del: replaceHasExtension.simps recursiveLoad.simps)
    done
qed

text \<open>
  C8. For a source in which no \<^verbatim>\<open>#include "..."\<close> directive stands (no occurrence of
  \<^verbatim>\<open>#include "\<close> followed, with no line terminator between, by a closing quote),
  \<^verbatim>\<open>recursiveLoad\<close> returns with any fuel but none, and resolves to \<^verbatim>\<open>undefined\<close>, not to
  the source text: the function falls off its end, and neither the substitution nor the
  \<^verbatim>\<open>HAS_EXTENSION\<close> rewriting is reached.
\<close>

theorem recursiveLoad_without_include_is_undefined:
  "\<not> (\<exists>b p a. src = b @ ''#include '' @ [dq] @ p @ [dq] @ a \<and> \<not> (\<exists>c\<in>set p. lineTerminator c))
   \<Longrightarrow> recursiveLoad (Suc k) h g base (Text src) duplist = Some (Inr None)"
proof -
  assume "\<not> (\<exists>b p a. src = b @ ''#include '' @ [dq] @ p @ [dq] @ a \<and> \<not> (\<exists>c\<in>set p. lineTerminator c))"
  then have "matchInclude src = None" by (rule iffD2 [OF matchInclude_None_iff])
  then show ?thesis by simp
qed

theorem recursiveLoad_without_include_is_undefined_witness:
  "recursiveLoad (Suc 0) promiseLoader (stubDriver []) ''shaders/main.glsl''
     (Text ''void main() { gl_FragColor = vec4(1.0); }'') {} = Some (Inr None)"
proof -
  have "matchInclude ''void main() { gl_FragColor = vec4(1.0); }'' = None"
    by (simp add: dq_def)
  then have "\<not> (\<exists>b p a. ''void main() { gl_FragColor = vec4(1.0); }'' = b @ ''#include '' @ [dq] @ p @ [dq] @ a
      \<and> \<not> (\<exists>c\<in>set p. lineTerminator c))"
    by (rule iffD1 [OF matchInclude_None_iff])
  then show ?thesis by (rule recursiveLoad_without_include_is_undefined)
qed

end
